theory Spec2Isabelle
  imports Main "HOL-Library.Word"
begin

unbundle bit_operations_syntax

section \<open>C types\<close>

text \<open>
  The fixed-width C types of the sources are words: arithmetic wraps, \<open>div\<close> is the
  unsigned division, \<open>AND\<close> is bitwise. \<open>herr_t\<close> and \<open>ssize_t\<close> only ever carry a
  status or a length and are read as integers (\<open>SUCCEED\<close> is 0, \<open>FAIL\<close> is -1).
\<close>

type_synonym uint8_t = "8 word"
type_synonym unsigned = "32 word"
type_synonym size_t = "64 word"
type_synonym haddr_t = "64 word"
type_synonym hid_t = int
type_synonym herr_t = int
type_synonym ssize_t = int
type_synonym time_t = int

definition SUCCEED :: herr_t where
  "SUCCEED = 0"

definition FAIL :: herr_t where
  "FAIL = - 1"

section \<open>Object header package: constants and size macros (src/H5Opkg.h)\<close>

definition H5O_MAX_CRT_ORDER_IDX :: nat where
  "H5O_MAX_CRT_ORDER_IDX = 65535"

definition H5O_VERSION_1 :: uint8_t where
  "H5O_VERSION_1 = 1"

definition H5O_VERSION_2 :: uint8_t where
  "H5O_VERSION_2 = 2"

definition H5O_VERSION_LATEST :: uint8_t where
  "H5O_VERSION_LATEST = H5O_VERSION_2"

definition H5O_SIZEOF_CHKSUM :: unsigned where
  "H5O_SIZEOF_CHKSUM = 4"

definition H5O_HDR_CHUNK0_1 :: unsigned where
  "H5O_HDR_CHUNK0_1 = 0x00"

definition H5O_HDR_CHUNK0_2 :: unsigned where
  "H5O_HDR_CHUNK0_2 = 0x01"

definition H5O_HDR_CHUNK0_4 :: unsigned where
  "H5O_HDR_CHUNK0_4 = 0x02"

definition H5O_HDR_CHUNK0_8 :: unsigned where
  "H5O_HDR_CHUNK0_8 = 0x03"

definition H5O_DECODEIO_NOCHANGE :: unsigned where
  "H5O_DECODEIO_NOCHANGE = 0x01"

definition H5O_DECODEIO_DIRTY :: unsigned where
  "H5O_DECODEIO_DIRTY = 0x02"

definition H5O_SHARE_IS_SHARABLE :: unsigned where
  "H5O_SHARE_IS_SHARABLE = 0x01"

definition H5O_SHARE_IN_OHDR :: unsigned where
  "H5O_SHARE_IN_OHDR = 0x02"

text \<open>
  Modelled from the spec: \<open>H5O_HDR_CHUNK0_SIZE\<close>, the mask of the chunk-0 size selector,
  is declared in a public header that is not part of the sources at hand. The spec calls
  it a 2-bit selector of the widths 1/2/4/8, and the four selector values
  \<open>H5O_HDR_CHUNK0_1\<close> .. \<open>H5O_HDR_CHUNK0_8\<close> above are 0 .. 3, so the mask is the two
  low bits.
\<close>

definition H5O_HDR_CHUNK0_SIZE :: unsigned where
  "H5O_HDR_CHUNK0_SIZE = 0x03"

text \<open>
  Modelled from the spec: \<open>H5_SIZEOF_MAGIC\<close> is declared in a private header that is not
  part of the sources at hand; the spec gives the version-2 prefix a 4-byte magic.
\<close>

definition H5_SIZEOF_MAGIC :: unsigned where
  "H5_SIZEOF_MAGIC = 4"

text \<open>
  \<open>H5O_ALIGN_OLD(X)\<close> is \<open>(8 * (((X) + 7) / 8))\<close>. A macro has the type of its argument;
  the model is polymorphic in the width of the unsigned type, so that it serves both the
  constant expressions of the size macros and a \<open>size_t\<close> message size.
\<close>

definition H5O_ALIGN_OLD :: "'a::len word \<Rightarrow> 'a word" where
  "H5O_ALIGN_OLD X = 8 * ((X + 7) div 8)"

definition H5O_ALIGN_VERS :: "uint8_t \<Rightarrow> 'a::len word \<Rightarrow> 'a word" where
  "H5O_ALIGN_VERS V X = (if V = H5O_VERSION_1 then H5O_ALIGN_OLD X else X)"

definition H5O_SIZEOF_MSGHDR_VERS :: "uint8_t \<Rightarrow> unsigned \<Rightarrow> unsigned" where
  "H5O_SIZEOF_MSGHDR_VERS V C =
     (if V = H5O_VERSION_1
      then H5O_ALIGN_OLD (2 + 2 + 1 + 3)
      else 1 + 2 + 1 + (if C \<noteq> 0 then 2 else 0))"

definition H5O_SIZEOF_CHKHDR_VERS :: "uint8_t \<Rightarrow> unsigned" where
  "H5O_SIZEOF_CHKHDR_VERS V =
     (if V = H5O_VERSION_1 then 0 + 0 else H5_SIZEOF_MAGIC + H5O_SIZEOF_CHKSUM)"

definition H5O_SIZEOF_CHKSUM_VERS :: "uint8_t \<Rightarrow> unsigned" where
  "H5O_SIZEOF_CHKSUM_VERS V = (if V = H5O_VERSION_1 then 0 else H5O_SIZEOF_CHKSUM)"

section \<open>Object header data (src/H5Opkg.h)\<close>

text \<open>
  \<open>H5O_mesg_t\<close>. The \<open>type\<close> pointer to a constant message class is the index of that
  class in the class table; \<open>native\<close> is \<open>None\<close> for the null pointer; \<open>raw\<close> is the
  byte sequence the pointer into the chunk image refers to. The creation index type
  \<open>H5O_msg_crt_idx_t\<close> is declared outside the sources at hand and is a type parameter.
\<close>

record ('n, 'c) H5O_mesg_t =
  type :: nat
  dirty :: bool
  locked :: bool
  flags :: uint8_t
  crt_idx :: 'c
  chunkno :: unsigned
  native :: "'n option"
  raw :: "uint8_t list"
  raw_size :: size_t

record H5O_chunk_t =
  addr :: haddr_t
  size_c :: size_t
  gap :: size_t
  image :: "uint8_t list"

text \<open>
  \<open>H5O_t\<close>, without the metadata cache's \<open>cache_info\<close> and the conditionally compiled
  \<open>store_bad_mesg_count\<close>. The header's own \<open>flags\<close> field is \<open>H5O_t.flags\<close>; the
  message's is \<open>H5O_mesg_t.flags\<close>.
\<close>

record ('n, 'c) H5O_t =
  sizeof_size :: size_t
  sizeof_addr :: size_t
  swmr_write :: bool
  ndecode_dirtied :: size_t
  rc :: size_t
  chunk0_size :: size_t
  mesgs_modified :: bool
  prefix_modified :: bool
  has_refcount_msg :: bool
  nlink :: unsigned
  version :: uint8_t
  flags :: uint8_t
  atime :: time_t
  mtime :: time_t
  ctime :: time_t
  btime :: time_t
  max_compact :: unsigned
  min_dense :: unsigned
  nmesgs :: size_t
  alloc_nmesgs :: size_t
  mesg :: "('n, 'c) H5O_mesg_t list"
  link_msgs_seen :: size_t
  attr_msgs_seen :: size_t
  nchunks :: size_t
  alloc_nchunks :: size_t
  chunk :: "H5O_chunk_t list"
  proxy_addr :: haddr_t
  proxy_present :: bool

text \<open>
  \<open>H5O_msg_class_t\<close>, with the members the macros of this file read: the type id, the
  sharing settings and the two callbacks \<open>decode\<close> and \<open>set_crt_index\<close>. \<open>decode\<close>
  takes the file, the transfer property list, the header, the message flags, the I/O
  flags and the raw bytes; it returns the native value (\<open>None\<close> for the null pointer)
  and the I/O flags it leaves in \<open>*ioflags\<close>. \<open>set_crt_index\<close> is \<open>None\<close> for a class
  without the callback; otherwise it returns its status and the native value it leaves.
\<close>

record ('f, 'n, 'c) H5O_msg_class_t =
  id_c :: unsigned
  share_flags :: unsigned
  decode :: "'f \<Rightarrow> hid_t \<Rightarrow> ('n, 'c) H5O_t \<Rightarrow> unsigned \<Rightarrow> unsigned \<Rightarrow> uint8_t list
               \<Rightarrow> 'n option \<times> unsigned"
  set_crt_index :: "('n \<Rightarrow> 'c \<Rightarrow> herr_t \<times> 'n) option"

text \<open>
  What the macros use and the sources at hand do not declare is a parameter: the header
  status flags \<open>H5O_HDR_ATTR_CRT_ORDER_TRACKED\<close>, \<open>H5O_HDR_ATTR_STORE_PHASE_CHANGE\<close>
  and \<open>H5O_HDR_STORE_TIMES\<close>, the message flag \<open>H5O_MSG_FLAG_SHAREABLE\<close>, the file
  access flag \<open>H5F_ACC_RDWR\<close> with the accessor \<open>H5F_get_intent\<close>, the macro
  \<open>H5O_UPDATE_SHARED\<close> (applied with \<open>H5O_SHARE_TYPE_HERE\<close>: it fills the sharing
  information at the head of the native value from the file, the type id, the creation
  index and the address of chunk 0), and whether the build defines \<open>NDEBUG\<close>.
\<close>

record ('f, 'n, 'c) H5_extern =
  H5O_HDR_ATTR_CRT_ORDER_TRACKED :: unsigned
  H5O_HDR_ATTR_STORE_PHASE_CHANGE :: unsigned
  H5O_HDR_STORE_TIMES :: unsigned
  H5O_MSG_FLAG_SHAREABLE :: unsigned
  H5F_ACC_RDWR :: unsigned
  H5F_get_intent :: "'f \<Rightarrow> unsigned"
  H5O_UPDATE_SHARED_HERE :: "'n \<Rightarrow> 'f \<Rightarrow> unsigned \<Rightarrow> 'c \<Rightarrow> haddr_t \<Rightarrow> 'n"
  NDEBUG :: bool

text \<open>
  \<open>H5O_SIZEOF_HDR(O)\<close>. The \<open>uint8_t\<close> flags are promoted before the bitwise AND
  (\<open>ucast\<close>); \<open>1 << n\<close> is \<open>push_bit n 1\<close>.
\<close>

definition H5O_SIZEOF_HDR :: "('f, 'n, 'c) H5_extern \<Rightarrow> ('n, 'c) H5O_t \<Rightarrow> unsigned" where
  "H5O_SIZEOF_HDR E OH =
     (if version OH = H5O_VERSION_1
      then H5O_ALIGN_OLD (1 + 1 + 2 + 4 + 4)
      else H5_SIZEOF_MAGIC + 1 + 1 +
           (if ucast (H5O_t.flags OH) AND H5O_HDR_STORE_TIMES E \<noteq> 0 then 4 + 4 + 4 + 4 else 0) +
           (if ucast (H5O_t.flags OH) AND H5O_HDR_ATTR_STORE_PHASE_CHANGE E \<noteq> 0 then 2 + 2 else 0) +
           push_bit (unat (ucast (H5O_t.flags OH) AND H5O_HDR_CHUNK0_SIZE)) 1 +
           H5O_SIZEOF_CHKSUM)"

definition H5O_SIZEOF_MSGHDR_OH :: "('f, 'n, 'c) H5_extern \<Rightarrow> ('n, 'c) H5O_t \<Rightarrow> unsigned" where
  "H5O_SIZEOF_MSGHDR_OH E OH =
     H5O_SIZEOF_MSGHDR_VERS (version OH)
       (ucast (H5O_t.flags OH) AND H5O_HDR_ATTR_CRT_ORDER_TRACKED E)"

definition H5O_ALIGN_OH :: "('n, 'c) H5O_t \<Rightarrow> 'a::len word \<Rightarrow> 'a word" where
  "H5O_ALIGN_OH OH X = H5O_ALIGN_VERS (version OH) X"

definition H5O_SIZEOF_CHKHDR_OH :: "('n, 'c) H5O_t \<Rightarrow> unsigned" where
  "H5O_SIZEOF_CHKHDR_OH OH = H5O_SIZEOF_CHKHDR_VERS (version OH)"

definition H5O_SIZEOF_CHKSUM_OH :: "('n, 'c) H5O_t \<Rightarrow> unsigned" where
  "H5O_SIZEOF_CHKSUM_OH OH = H5O_SIZEOF_CHKSUM_VERS (version OH)"

section \<open>Loading the native form of a message (src/H5Opkg.h)\<close>

text \<open>
  How an expansion of \<open>H5O_LOAD_NATIVE\<close> ends: it falls through to the code after the
  macro, it jumps to \<open>done\<close> with one of the two errors, an \<open>HDassert\<close> of a debug
  build stops the program, or it reads \<open>chunk[0]\<close> of a header without chunks.
\<close>

datatype load_outcome =
  Completed
  | Error_CANTDECODE
  | Error_CANTSET
  | Assertion_failed
  | No_chunk0

text \<open>
  \<open>H5O_LOAD_NATIVE(F, DXPL, IOF, OH, MSG, ERR)\<close>. The macro writes through \<open>MSG\<close> and
  \<open>OH\<close>; the model returns both with the outcome. The writes made before an error
  stay, as in C: the message keeps the decoded value and the dirty flag when
  \<open>set_crt_index\<close> fails. \<open>msg_class_g\<close> resolves the class pointer of the message.
  The \<open>decode\<close> callback is always present (the macro asserts it).
\<close>

definition H5O_LOAD_NATIVE ::
  "('f, 'n, 'c) H5_extern \<Rightarrow> (nat \<Rightarrow> ('f, 'n, 'c) H5O_msg_class_t) \<Rightarrow> 'f \<Rightarrow> hid_t \<Rightarrow> unsigned
     \<Rightarrow> ('n, 'c) H5O_t \<Rightarrow> ('n, 'c) H5O_mesg_t
     \<Rightarrow> load_outcome \<times> ('n, 'c) H5O_t \<times> ('n, 'c) H5O_mesg_t" where
  "H5O_LOAD_NATIVE E msg_class_g F DXPL IOF OH MSG =
     (case native MSG of
        Some _ \<Rightarrow> (Completed, OH, MSG)
      | None \<Rightarrow>
          let msg_type = msg_class_g (type MSG);
              (decoded, ioflags) =
                 decode msg_type F DXPL OH (ucast (H5O_mesg_t.flags MSG)) IOF (raw MSG)
          in case decoded of
               None \<Rightarrow> (Error_CANTDECODE, OH, MSG)
             | Some n \<Rightarrow>
                 let MSG1 = MSG\<lparr>native := Some n\<rparr>;
                     dirtied = (ioflags AND H5O_DECODEIO_DIRTY \<noteq> 0
                                \<and> H5F_get_intent E F AND H5F_ACC_RDWR E \<noteq> 0);
                     MSG2 = (if dirtied then MSG1\<lparr>dirty := True\<rparr> else MSG1);
                     OH2 = (if dirtied \<and> \<not> NDEBUG E
                            then OH\<lparr>ndecode_dirtied := ndecode_dirtied OH + 1\<rparr> else OH)
                 in if ucast (H5O_mesg_t.flags MSG2) AND H5O_MSG_FLAG_SHAREABLE E \<noteq> 0
                       \<and> \<not> NDEBUG E \<and> share_flags msg_type AND H5O_SHARE_IS_SHARABLE = 0
                    then (Assertion_failed, OH2, MSG2)
                    else if ucast (H5O_mesg_t.flags MSG2) AND H5O_MSG_FLAG_SHAREABLE E \<noteq> 0
                       \<and> chunk OH2 = []
                    then (No_chunk0, OH2, MSG2)
                    else
                      let n3 = (if ucast (H5O_mesg_t.flags MSG2) AND H5O_MSG_FLAG_SHAREABLE E \<noteq> 0
                                then H5O_UPDATE_SHARED_HERE E n F (id_c msg_type) (crt_idx MSG2)
                                       (addr (hd (chunk OH2)))
                                else n);
                          MSG3 = MSG2\<lparr>native := Some n3\<rparr>
                      in case set_crt_index msg_type of
                           None \<Rightarrow> (Completed, OH2, MSG3)
                         | Some set_idx \<Rightarrow>
                             let (status, n4) = set_idx n3 (crt_idx MSG3);
                                 MSG4 = MSG3\<lparr>native := Some n4\<rparr>
                             in if status < 0 then (Error_CANTSET, OH2, MSG4)
                                else (Completed, OH2, MSG4))"

section \<open>Plugin interface (src/H5PL.c)\<close>

text \<open>
  What the API functions reach outside H5PL.c is a parameter: whether \<open>FUNC_ENTER_API\<close>
  succeeds (a function whose entry fails returns \<open>FAIL\<close> before its body runs) and the
  process environment read by \<open>HDgetenv\<close> (\<open>None\<close> for the null pointer).
\<close>

record H5_api =
  FUNC_ENTER_API_ok :: bool
  HDgetenv :: "string \<Rightarrow> string option"

text \<open>The special preload path of the function comment of \<open>H5PLset_loading_state\<close>.\<close>

definition H5PL_NO_PLUGIN :: string where
  "H5PL_NO_PLUGIN = ''::''"

text \<open>
  \<open>H5PLset_loading_state\<close>: the global \<open>H5PL_plugin_g\<close> is passed in and returned with
  the status. \<open>!HDstrcmp(a, b)\<close> is equality of the two strings.
\<close>

definition H5PLset_loading_state :: "H5_api \<Rightarrow> unsigned \<Rightarrow> unsigned \<Rightarrow> herr_t \<times> unsigned" where
  "H5PLset_loading_state A plugin_type H5PL_plugin_g =
     (if \<not> FUNC_ENTER_API_ok A then (FAIL, H5PL_plugin_g)
      else
        let g1 = plugin_type;
            g2 = (case HDgetenv A ''HDF5_PLUGIN_PRELOAD'' of
                    None \<Rightarrow> g1
                  | Some preload_path \<Rightarrow> if preload_path = H5PL_NO_PLUGIN then 0 else g1)
        in (SUCCEED, g2))"

text \<open>
  \<open>H5PLget_loading_state\<close>: \<open>plugin_type\<close> is \<open>None\<close> for the null pointer, otherwise
  the value the pointer refers to; the function returns it updated.
\<close>

definition H5PLget_loading_state ::
  "H5_api \<Rightarrow> unsigned option \<Rightarrow> unsigned \<Rightarrow> herr_t \<times> unsigned option" where
  "H5PLget_loading_state A plugin_type H5PL_plugin_g =
     (if \<not> FUNC_ENTER_API_ok A then (FAIL, plugin_type)
      else (SUCCEED, (case plugin_type of None \<Rightarrow> None | Some _ \<Rightarrow> Some H5PL_plugin_g)))"

text \<open>
  The path table lives in another file of the package; its operations are a parameter,
  over any representation \<open>'t\<close> of the table. The two readers return a value; the
  others return their status and the table they leave.
\<close>

record 't H5PL_path =
  H5PL__get_num_paths :: "'t \<Rightarrow> unsigned"
  H5PL__get_path :: "unsigned \<Rightarrow> 't \<Rightarrow> string option"
  H5PL__append_path :: "string \<Rightarrow> 't \<Rightarrow> herr_t \<times> 't"
  H5PL__prepend_path :: "string \<Rightarrow> 't \<Rightarrow> herr_t \<times> 't"
  H5PL__replace_path :: "string \<Rightarrow> unsigned \<Rightarrow> 't \<Rightarrow> herr_t \<times> 't"
  H5PL__insert_path :: "string \<Rightarrow> unsigned \<Rightarrow> 't \<Rightarrow> herr_t \<times> 't"
  H5PL__remove_path :: "unsigned \<Rightarrow> 't \<Rightarrow> herr_t \<times> 't"

text \<open>
  A \<open>const char *\<close> argument is \<open>None\<close> for the null pointer. Each function returns its
  status and the path table it leaves.
\<close>

definition H5PLappend :: "H5_api \<Rightarrow> 't H5PL_path \<Rightarrow> string option \<Rightarrow> 't \<Rightarrow> herr_t \<times> 't" where
  "H5PLappend A P search_path t =
     (if \<not> FUNC_ENTER_API_ok A then (FAIL, t)
      else case search_path of
        None \<Rightarrow> (FAIL, t)
      | Some sp \<Rightarrow>
          if length sp = 0 then (FAIL, t)
          else let (status, t') = H5PL__append_path P sp t
               in if status < 0 then (FAIL, t') else (SUCCEED, t'))"

definition H5PLprepend :: "H5_api \<Rightarrow> 't H5PL_path \<Rightarrow> string option \<Rightarrow> 't \<Rightarrow> herr_t \<times> 't" where
  "H5PLprepend A P search_path t =
     (if \<not> FUNC_ENTER_API_ok A then (FAIL, t)
      else case search_path of
        None \<Rightarrow> (FAIL, t)
      | Some sp \<Rightarrow>
          if length sp = 0 then (FAIL, t)
          else let (status, t') = H5PL__prepend_path P sp t
               in if status < 0 then (FAIL, t') else (SUCCEED, t'))"

definition H5PLreplace ::
  "H5_api \<Rightarrow> 't H5PL_path \<Rightarrow> string option \<Rightarrow> unsigned \<Rightarrow> 't \<Rightarrow> herr_t \<times> 't" where
  "H5PLreplace A P search_path index t =
     (if \<not> FUNC_ENTER_API_ok A then (FAIL, t)
      else case search_path of
        None \<Rightarrow> (FAIL, t)
      | Some sp \<Rightarrow>
          if length sp = 0 then (FAIL, t)
          else
            let num_paths = H5PL__get_num_paths P t
            in if 0 = num_paths then (FAIL, t)
               else if index \<ge> num_paths then (FAIL, t)
               else let (status, t') = H5PL__replace_path P sp index t
                    in if status < 0 then (FAIL, t') else (SUCCEED, t'))"

definition H5PLinsert ::
  "H5_api \<Rightarrow> 't H5PL_path \<Rightarrow> string option \<Rightarrow> unsigned \<Rightarrow> 't \<Rightarrow> herr_t \<times> 't" where
  "H5PLinsert A P search_path index t =
     (if \<not> FUNC_ENTER_API_ok A then (FAIL, t)
      else case search_path of
        None \<Rightarrow> (FAIL, t)
      | Some sp \<Rightarrow>
          if length sp = 0 then (FAIL, t)
          else
            let num_paths = H5PL__get_num_paths P t
            in if 0 \<noteq> num_paths \<and> index \<ge> num_paths then (FAIL, t)
               else let (status, t') = H5PL__insert_path P sp index t
                    in if status < 0 then (FAIL, t') else (SUCCEED, t'))"

definition H5PLremove :: "H5_api \<Rightarrow> 't H5PL_path \<Rightarrow> unsigned \<Rightarrow> 't \<Rightarrow> herr_t \<times> 't" where
  "H5PLremove A P index t =
     (if \<not> FUNC_ENTER_API_ok A then (FAIL, t)
      else
        let num_paths = H5PL__get_num_paths P t
        in if 0 = num_paths then (FAIL, t)
           else if index \<ge> num_paths then (FAIL, t)
           else let (status, t') = H5PL__remove_path P index t
                in if status < 0 then (FAIL, t') else (SUCCEED, t'))"

text \<open>
  \<open>H5PLget\<close>. The caller's buffer \<open>path_name\<close> is \<open>None\<close> for the null pointer,
  otherwise its bytes (the terminating NUL is the character 0). \<open>HDstrncpy\<close> with a
  count of at most \<open>path_len + 1\<close> writes that many leading characters of the path
  followed by its NUL. A write past the buffer's end, or at index \<open>size - 1\<close> when
  \<open>size\<close> is 0, is outside what C defines: the model reports it as \<open>Out_of_buffer\<close>.
\<close>

datatype 't get_result =
  Returned ssize_t "string option" 't
  | Out_of_buffer

definition HDstrncpy :: "string \<Rightarrow> string \<Rightarrow> nat \<Rightarrow> string" where
  "HDstrncpy dst src n = take n (src @ replicate (n - length src) (CHR 0x00)) @ drop n dst"

definition H5PLget ::
  "H5_api \<Rightarrow> 't H5PL_path \<Rightarrow> unsigned \<Rightarrow> string option \<Rightarrow> size_t \<Rightarrow> 't \<Rightarrow> 't get_result" where
  "H5PLget A P index path_name size_a t =
     (if \<not> FUNC_ENTER_API_ok A then Returned FAIL path_name t
      else
        let num_paths = H5PL__get_num_paths P t
        in if 0 = num_paths then Returned FAIL path_name t
           else if index \<ge> num_paths then Returned FAIL path_name t
           else if H5PL__get_num_paths P t = 0 then Returned (- 1) path_name t
           else case H5PL__get_path P index t of
                  None \<Rightarrow> Returned (- 1) path_name t
                | Some path \<Rightarrow>
                    let path_len = (of_nat (length path) :: size_t)
                    in case path_name of
                         None \<Rightarrow> Returned (sint path_len) None t
                       | Some buf \<Rightarrow>
                           let n = unat (min (path_len + 1) size_a)
                           in if length buf < n then Out_of_buffer
                              else if path_len \<ge> size_a
                              then (if size_a = 0 then Out_of_buffer
                                    else Returned (sint path_len)
                                           (Some ((HDstrncpy buf path n)[unat (size_a - 1) := CHR 0x00])) t)
                              else Returned (sint path_len) (Some (HDstrncpy buf path n)) t)"

text \<open>
  \<open>H5PLsize\<close>: \<open>num_paths\<close> is \<open>None\<close> for the null pointer, otherwise the value
  the pointer refers to; the function returns it updated.
\<close>

definition H5PLsize ::
  "H5_api \<Rightarrow> 't H5PL_path \<Rightarrow> unsigned option \<Rightarrow> 't \<Rightarrow> herr_t \<times> unsigned option" where
  "H5PLsize A P num_paths t =
     (if \<not> FUNC_ENTER_API_ok A then (FAIL, num_paths)
      else case num_paths of
        None \<Rightarrow> (FAIL, None)
      | Some _ \<Rightarrow> (SUCCEED, Some (H5PL__get_num_paths P t)))"

section \<open>Concrete inputs\<close>

text \<open>
  Values on which the definitions above are run. The file is its intent flags, the
  native value of a message is a number, the creation index is 16 bits wide. The example
  class decodes a non-empty raw message to its length and reports that it changed the
  value; it fails on an empty one.
\<close>

definition ex_extern :: "(unsigned, nat, 16 word) H5_extern" where
  "ex_extern = \<lparr>H5O_HDR_ATTR_CRT_ORDER_TRACKED = 0x04,
                H5O_HDR_ATTR_STORE_PHASE_CHANGE = 0x10,
                H5O_HDR_STORE_TIMES = 0x20,
                H5O_MSG_FLAG_SHAREABLE = 0x02,
                H5F_ACC_RDWR = 0x01,
                H5F_get_intent = (\<lambda>f. f),
                H5O_UPDATE_SHARED_HERE = (\<lambda>n f i c a. n),
                NDEBUG = False\<rparr>"

definition ex_class :: "nat \<Rightarrow> (unsigned, nat, 16 word) H5O_msg_class_t" where
  "ex_class k = \<lparr>id_c = of_nat k, share_flags = 0,
                 decode = (\<lambda>f dxpl oh mflags ioflags bytes.
                             if bytes = [] then (None, ioflags)
                             else (Some (length bytes), ioflags OR H5O_DECODEIO_DIRTY)),
                 set_crt_index = None\<rparr>"

definition ex_mesg :: "(nat, 16 word) H5O_mesg_t" where
  "ex_mesg = \<lparr>type = 1, dirty = False, locked = False, flags = 0, crt_idx = 0, chunkno = 0,
              native = None, raw = [1, 0, 0, 0], raw_size = 8\<rparr>"

definition ex_chunk :: H5O_chunk_t where
  "ex_chunk = \<lparr>addr = 96, size_c = 32, gap = 0, image = replicate 32 0\<rparr>"

definition ex_oh :: "(nat, 16 word) H5O_t" where
  "ex_oh = \<lparr>sizeof_size = 8, sizeof_addr = 8, swmr_write = False, ndecode_dirtied = 0,
            rc = 0, chunk0_size = 16, mesgs_modified = False, prefix_modified = False,
            has_refcount_msg = False, nlink = 1, version = 1, flags = 0,
            atime = 0, mtime = 0, ctime = 0, btime = 0, max_compact = 8, min_dense = 6,
            nmesgs = 1, alloc_nmesgs = 8, mesg = [ex_mesg], link_msgs_seen = 0,
            attr_msgs_seen = 0, nchunks = 1, alloc_nchunks = 2, chunk = [ex_chunk],
            proxy_addr = 0, proxy_present = False\<rparr>"

definition ex_api :: "string option \<Rightarrow> H5_api" where
  "ex_api preload = \<lparr>FUNC_ENTER_API_ok = True,
      HDgetenv = (\<lambda>name. if name = ''HDF5_PLUGIN_PRELOAD'' then preload else None)\<rparr>"

text \<open>A path table kept as a list of strings.\<close>

definition list_path :: "string list H5PL_path" where
  "list_path = \<lparr>
     H5PL__get_num_paths = (\<lambda>t. of_nat (length t)),
     H5PL__get_path = (\<lambda>i t. if unat i < length t then Some (t ! unat i) else None),
     H5PL__append_path = (\<lambda>p t. (SUCCEED, t @ [p])),
     H5PL__prepend_path = (\<lambda>p t. (SUCCEED, p # t)),
     H5PL__replace_path =
       (\<lambda>p i t. if unat i < length t then (SUCCEED, t[unat i := p]) else (FAIL, t)),
     H5PL__insert_path = (\<lambda>p i t. (SUCCEED, take (unat i) t @ [p] @ drop (unat i) t)),
     H5PL__remove_path =
       (\<lambda>i t. if unat i < length t then (SUCCEED, take (unat i) t @ drop (Suc (unat i)) t)
              else (FAIL, t))\<rparr>"

section \<open>Alignment\<close>

lemma unat_H5O_ALIGN_OLD:
  fixes X :: size_t
  assumes "X \<le> - 8"
  shows "unat (H5O_ALIGN_OLD X) = 8 * ((unat X + 7) div 8)"
proof -
  have "unat X \<le> unat (- 8 :: size_t)"
    using assms by (simp add: word_le_nat_alt)
  then have le: "unat X + 7 < 2 ^ 64"
    by simp
  then have a: "unat (X + 7) = unat X + 7"
    by (simp add: unat_word_ariths)
  have b: "unat ((X + 7) div 8) = (unat X + 7) div 8"
    by (simp add: unat_div a)
  have c: "8 * ((unat X + 7) div 8) < 2 ^ 64"
    using le by simp
  show ?thesis
    unfolding H5O_ALIGN_OLD_def using c by (simp add: unat_word_ariths b)
qed

text \<open>
  C7, as amended. For every \<open>size_t\<close> value \<open>X\<close> up to \<open>SIZE_MAX - 7\<close> (written \<open>- 8\<close>
  as a word: the values for which \<open>X + 7\<close> does not wrap around), the version-1
  alignment of \<open>X\<close> is a multiple of 8, is at least \<open>X\<close>, is less than \<open>X + 8\<close>, is
  the least multiple of 8 that is at least \<open>X\<close>, and aligning it again changes nothing.
  For version 2 the alignment is the identity, for every \<open>X\<close>.
\<close>

theorem H5O_ALIGN_least_multiple:
  fixes X :: size_t
  shows "(X \<le> - 8 \<longrightarrow>
            8 dvd unat (H5O_ALIGN_VERS H5O_VERSION_1 X)
          \<and> unat X \<le> unat (H5O_ALIGN_VERS H5O_VERSION_1 X)
          \<and> unat (H5O_ALIGN_VERS H5O_VERSION_1 X) < unat X + 8
          \<and> (\<forall>m. 8 dvd m \<and> unat X \<le> m \<longrightarrow> unat (H5O_ALIGN_VERS H5O_VERSION_1 X) \<le> m)
          \<and> H5O_ALIGN_VERS H5O_VERSION_1 (H5O_ALIGN_VERS H5O_VERSION_1 X)
              = H5O_ALIGN_VERS H5O_VERSION_1 X)
       \<and> H5O_ALIGN_VERS H5O_VERSION_2 X = X"
proof -
  let ?r = "H5O_ALIGN_OLD X"
  have v2: "H5O_ALIGN_VERS H5O_VERSION_2 X = X"
    by (simp add: H5O_ALIGN_VERS_def H5O_VERSION_1_def H5O_VERSION_2_def)
  have v1: "H5O_ALIGN_VERS H5O_VERSION_1 Y = H5O_ALIGN_OLD Y" for Y :: size_t
    by (simp add: H5O_ALIGN_VERS_def)
  {
    assume bound: "X \<le> - 8"
    have u: "unat ?r = 8 * ((unat X + 7) div 8)"
      using bound by (rule unat_H5O_ALIGN_OLD)
    have d: "8 dvd unat ?r"
      by (simp add: u)
    have ge: "unat X \<le> unat ?r"
      unfolding u by arith
    have lt: "unat ?r < unat X + 8"
      unfolding u by arith
    have least: "\<forall>m. 8 dvd m \<and> unat X \<le> m \<longrightarrow> unat ?r \<le> m"
      unfolding u by (auto elim!: dvdE)
    have r8: "?r \<le> - 8"
    proof -
      have "unat ?r \<le> unat (- 8 :: size_t)"
        using bound u by (simp add: word_le_nat_alt)
      then show ?thesis by (simp add: word_le_nat_alt)
    qed
    have "unat (H5O_ALIGN_OLD ?r) = 8 * ((unat ?r + 7) div 8)"
      using r8 by (rule unat_H5O_ALIGN_OLD)
    also have "\<dots> = unat ?r"
      using d by (auto elim!: dvdE)
    finally have idem: "H5O_ALIGN_OLD ?r = ?r"
      by (simp add: word_unat_eq_iff)
    have "8 dvd unat (H5O_ALIGN_VERS H5O_VERSION_1 X)
          \<and> unat X \<le> unat (H5O_ALIGN_VERS H5O_VERSION_1 X)
          \<and> unat (H5O_ALIGN_VERS H5O_VERSION_1 X) < unat X + 8
          \<and> (\<forall>m. 8 dvd m \<and> unat X \<le> m \<longrightarrow> unat (H5O_ALIGN_VERS H5O_VERSION_1 X) \<le> m)
          \<and> H5O_ALIGN_VERS H5O_VERSION_1 (H5O_ALIGN_VERS H5O_VERSION_1 X)
              = H5O_ALIGN_VERS H5O_VERSION_1 X"
      unfolding v1 using d ge lt least idem by simp
  }
  with v2 show ?thesis by blast
qed

theorem H5O_ALIGN_least_multiple_witness:
  "(13 :: size_t) \<le> - 8
   \<and> H5O_ALIGN_VERS H5O_VERSION_1 (13 :: size_t) = 16
   \<and> 8 dvd unat (H5O_ALIGN_VERS H5O_VERSION_1 (13 :: size_t))
   \<and> H5O_ALIGN_VERS H5O_VERSION_1 (H5O_ALIGN_VERS H5O_VERSION_1 (13 :: size_t)) = 16
   \<and> H5O_ALIGN_VERS H5O_VERSION_2 (13 :: size_t) = 13"
  using H5O_ALIGN_least_multiple [of 13]
  by (simp add: H5O_ALIGN_VERS_def H5O_ALIGN_OLD_def H5O_VERSION_1_def H5O_VERSION_2_def)

text \<open>
  The claim as written (every size) fails at the top of \<open>size_t\<close>: \<open>SIZE_MAX + 7\<close> wraps
  to 6, the quotient by 8 is 0, and the alignment of \<open>SIZE_MAX\<close> is 0, which is below it.
\<close>

theorem H5O_ALIGN_overflow_counterexample:
  "H5O_ALIGN_VERS H5O_VERSION_1 (0xFFFFFFFFFFFFFFFF :: size_t) = 0
   \<and> \<not> (0xFFFFFFFFFFFFFFFF :: size_t) \<le> H5O_ALIGN_VERS H5O_VERSION_1 0xFFFFFFFFFFFFFFFF"
  by (simp add: H5O_ALIGN_VERS_def H5O_ALIGN_OLD_def)

section \<open>Prefix and message header sizes\<close>

lemma chunk0_selector:
  "unat ((ucast (f :: uint8_t) :: unsigned) AND H5O_HDR_CHUNK0_SIZE) = unat (f AND 3)"
proof -
  have "(ucast f :: unsigned) AND 3 = ucast (f AND 3)"
    by (simp add: unsigned_and_eq)
  moreover have "unat (f AND 3) < 2 ^ 32"
    using unsigned_less [of "f AND 3", where 'a = nat] by simp
  ultimately show ?thesis
    by (simp add: H5O_HDR_CHUNK0_SIZE_def unsigned_ucast_eq take_bit_nat_eq_self)
qed

text \<open>
  C3. The prefix size of a version-1 header is the 8-byte alignment of
  1 + 1 + 2 + 4 + 4, which is 16. Of any other version (version 2), it is the magic
  size, plus 1 (version), plus 1 (flags), plus 16 exactly when the store-times flag is
  set, plus 4 exactly when the attribute-phase-change flag is set, plus the width of
  the chunk-0 size field, plus 4 (checksum); that width is 2 to the power of the two
  low bits of the flags, which is 1, 2, 4 or 8.
\<close>

theorem H5O_SIZEOF_HDR_layout:
  "H5O_SIZEOF_HDR E OH =
     (if version OH = H5O_VERSION_1 then 16
      else H5_SIZEOF_MAGIC + 1 + 1
           + (if ucast (H5O_t.flags OH) AND H5O_HDR_STORE_TIMES E \<noteq> 0 then 16 else 0)
           + (if ucast (H5O_t.flags OH) AND H5O_HDR_ATTR_STORE_PHASE_CHANGE E \<noteq> 0 then 4 else 0)
           + 2 ^ unat (H5O_t.flags OH AND 3)
           + 4)
   \<and> H5O_ALIGN_OLD (1 + 1 + 2 + 4 + 4 :: unsigned) = 16
   \<and> unat (H5O_t.flags OH AND 3) \<in> {0, 1, 2, 3}
   \<and> (2 :: unsigned) ^ unat (H5O_t.flags OH AND 3) \<in> {1, 2, 4, 8}"
proof -
  have al: "H5O_ALIGN_OLD (1 + 1 + 2 + 4 + 4 :: unsigned) = 16"
    by (simp add: H5O_ALIGN_OLD_def)
  have "H5O_t.flags OH AND 3 \<le> 3"
    by (rule word_and_le1)
  then have "unat (H5O_t.flags OH AND 3) \<le> 3"
    by (simp add: word_le_nat_alt)
  then have sel: "unat (H5O_t.flags OH AND 3) \<in> {0, 1, 2, 3}"
    by auto
  then have w: "(2 :: unsigned) ^ unat (H5O_t.flags OH AND 3) \<in> {1, 2, 4, 8}"
    by auto
  have "H5O_SIZEOF_HDR E OH =
     (if version OH = H5O_VERSION_1 then 16
      else H5_SIZEOF_MAGIC + 1 + 1
           + (if ucast (H5O_t.flags OH) AND H5O_HDR_STORE_TIMES E \<noteq> 0 then 16 else 0)
           + (if ucast (H5O_t.flags OH) AND H5O_HDR_ATTR_STORE_PHASE_CHANGE E \<noteq> 0 then 4 else 0)
           + 2 ^ unat (H5O_t.flags OH AND 3)
           + 4)"
    unfolding H5O_SIZEOF_HDR_def al chunk0_selector
    by (simp add: H5O_SIZEOF_CHKSUM_def push_bit_eq_mult)
  with al sel w show ?thesis by blast
qed

text \<open>
  C4. The message header size of a version-1 header is the 8-byte alignment of
  2 + 2 + 1 + 3, which is 8. Of any other version (version 2), it is 1 + 2 + 1 = 4
  with no padding, plus 2 for the creation index exactly when the header's
  attribute-creation-order-tracked flag is set, which makes 6.
\<close>

theorem H5O_SIZEOF_MSGHDR_layout:
  "H5O_SIZEOF_MSGHDR_OH E OH =
     (if version OH = H5O_VERSION_1 then 8
      else if ucast (H5O_t.flags OH) AND H5O_HDR_ATTR_CRT_ORDER_TRACKED E \<noteq> 0 then 6
      else 4)
   \<and> H5O_SIZEOF_MSGHDR_VERS H5O_VERSION_1 C = H5O_ALIGN_OLD (2 + 2 + 1 + 3)
   \<and> H5O_ALIGN_OLD (2 + 2 + 1 + 3 :: unsigned) = 8
   \<and> H5O_SIZEOF_MSGHDR_VERS H5O_VERSION_2 C = 1 + 2 + 1 + (if C \<noteq> 0 then 2 else 0)"
  by (simp add: H5O_SIZEOF_MSGHDR_OH_def H5O_SIZEOF_MSGHDR_VERS_def H5O_ALIGN_OLD_def
      H5O_VERSION_1_def H5O_VERSION_2_def)

section \<open>Loading native values\<close>

text \<open>
  What \<open>H5O_LOAD_NATIVE\<close> leaves alone: the class, the creation index, the chunk number,
  the raw bytes and their size, the flags and the lock of the message, and the chunks
  and messages of the header.
\<close>

lemma H5O_LOAD_NATIVE_frame:
  "crt_idx (snd (snd (H5O_LOAD_NATIVE E g F DXPL IOF OH MSG))) = crt_idx MSG
   \<and> chunkno (snd (snd (H5O_LOAD_NATIVE E g F DXPL IOF OH MSG))) = chunkno MSG
   \<and> raw_size (snd (snd (H5O_LOAD_NATIVE E g F DXPL IOF OH MSG))) = raw_size MSG
   \<and> raw (snd (snd (H5O_LOAD_NATIVE E g F DXPL IOF OH MSG))) = raw MSG
   \<and> type (snd (snd (H5O_LOAD_NATIVE E g F DXPL IOF OH MSG))) = type MSG
   \<and> H5O_mesg_t.flags (snd (snd (H5O_LOAD_NATIVE E g F DXPL IOF OH MSG))) = H5O_mesg_t.flags MSG
   \<and> locked (snd (snd (H5O_LOAD_NATIVE E g F DXPL IOF OH MSG))) = locked MSG
   \<and> chunk (fst (snd (H5O_LOAD_NATIVE E g F DXPL IOF OH MSG))) = chunk OH
   \<and> mesg (fst (snd (H5O_LOAD_NATIVE E g F DXPL IOF OH MSG))) = mesg OH"
  by (simp add: H5O_LOAD_NATIVE_def Let_def split: option.splits prod.splits)

text \<open>
  C2, as amended. A message whose native value is present is left as it is, whatever
  the decode callback would do. A message whose native pointer is null is decoded by
  the callback of its class: when that fails the macro reports the decode error and
  changes nothing; when it returns a value the message has a native value afterwards
  (the returned one, when the message is not shareable and its class sets no creation
  index), and when the callback also reports \<open>H5O_DECODEIO_DIRTY\<close> and the file's
  intent has \<open>H5F_ACC_RDWR\<close>, the message is dirty afterwards.
\<close>

theorem H5O_LOAD_NATIVE_dirty_on_decode:
  "(native MSG \<noteq> None \<longrightarrow> H5O_LOAD_NATIVE E g F DXPL IOF OH MSG = (Completed, OH, MSG))
   \<and> (native MSG = None
        \<and> fst (decode (g (type MSG)) F DXPL OH (ucast (H5O_mesg_t.flags MSG)) IOF (raw MSG)) = None
       \<longrightarrow> H5O_LOAD_NATIVE E g F DXPL IOF OH MSG = (Error_CANTDECODE, OH, MSG))
   \<and> (native MSG = None
        \<and> decode (g (type MSG)) F DXPL OH (ucast (H5O_mesg_t.flags MSG)) IOF (raw MSG)
            = (Some n, io)
       \<longrightarrow> native (snd (snd (H5O_LOAD_NATIVE E g F DXPL IOF OH MSG))) \<noteq> None
           \<and> (ucast (H5O_mesg_t.flags MSG) AND H5O_MSG_FLAG_SHAREABLE E = 0
                \<and> set_crt_index (g (type MSG)) = None
               \<longrightarrow> native (snd (snd (H5O_LOAD_NATIVE E g F DXPL IOF OH MSG))) = Some n)
           \<and> (io AND H5O_DECODEIO_DIRTY \<noteq> 0 \<and> H5F_get_intent E F AND H5F_ACC_RDWR E \<noteq> 0
               \<longrightarrow> dirty (snd (snd (H5O_LOAD_NATIVE E g F DXPL IOF OH MSG)))))"
  by (auto simp add: H5O_LOAD_NATIVE_def Let_def split: option.splits prod.splits)

theorem H5O_LOAD_NATIVE_dirty_on_decode_witness:
  "native (ex_mesg\<lparr>native := Some 4\<rparr>) \<noteq> None
   \<and> H5O_LOAD_NATIVE ex_extern ex_class 1 0 0 ex_oh (ex_mesg\<lparr>native := Some 4\<rparr>)
       = (Completed, ex_oh, ex_mesg\<lparr>native := Some 4\<rparr>)
   \<and> native (ex_mesg\<lparr>raw := []\<rparr>) = None
   \<and> fst (decode (ex_class (type (ex_mesg\<lparr>raw := []\<rparr>))) 1 0 ex_oh
            (ucast (H5O_mesg_t.flags (ex_mesg\<lparr>raw := []\<rparr>))) 0 (raw (ex_mesg\<lparr>raw := []\<rparr>))) = None
   \<and> H5O_LOAD_NATIVE ex_extern ex_class 1 0 0 ex_oh (ex_mesg\<lparr>raw := []\<rparr>)
       = (Error_CANTDECODE, ex_oh, ex_mesg\<lparr>raw := []\<rparr>)
   \<and> native ex_mesg = None
   \<and> decode (ex_class (type ex_mesg)) 1 0 ex_oh (ucast (H5O_mesg_t.flags ex_mesg)) 0 (raw ex_mesg)
       = (Some 4, H5O_DECODEIO_DIRTY)
   \<and> ucast (H5O_mesg_t.flags ex_mesg) AND H5O_MSG_FLAG_SHAREABLE ex_extern = 0
   \<and> set_crt_index (ex_class (type ex_mesg)) = None
   \<and> H5O_DECODEIO_DIRTY AND H5O_DECODEIO_DIRTY \<noteq> 0
   \<and> H5F_get_intent ex_extern 1 AND H5F_ACC_RDWR ex_extern \<noteq> 0
   \<and> dirty (snd (snd (H5O_LOAD_NATIVE ex_extern ex_class 1 0 0 ex_oh ex_mesg)))
   \<and> native (snd (snd (H5O_LOAD_NATIVE ex_extern ex_class 1 0 0 ex_oh ex_mesg))) = Some 4"
  using H5O_LOAD_NATIVE_dirty_on_decode
          [of "ex_mesg\<lparr>native := Some 4\<rparr>" ex_extern ex_class 1 0 0 ex_oh]
        H5O_LOAD_NATIVE_dirty_on_decode
          [of "ex_mesg\<lparr>raw := []\<rparr>" ex_extern ex_class 1 0 0 ex_oh]
        H5O_LOAD_NATIVE_dirty_on_decode
          [of ex_mesg ex_extern ex_class 1 0 0 ex_oh 4 H5O_DECODEIO_DIRTY]
  by (simp add: H5O_LOAD_NATIVE_def ex_extern_def ex_class_def ex_mesg_def ex_oh_def
      H5O_DECODEIO_DIRTY_def)

text \<open>
  The claim as written (dirty whenever the callback reports a change) fails for a file
  opened read-only: intent 0, the callback reports \<open>H5O_DECODEIO_DIRTY\<close>, the load
  completes with the native value, and the message is not dirty.
\<close>

theorem H5O_LOAD_NATIVE_dirty_counterexample:
  "decode (ex_class (type ex_mesg)) 0 0 ex_oh (ucast (H5O_mesg_t.flags ex_mesg)) 0 (raw ex_mesg)
     = (Some 4, H5O_DECODEIO_DIRTY)
   \<and> H5O_LOAD_NATIVE ex_extern ex_class 0 0 0 ex_oh ex_mesg
       = (Completed, ex_oh, ex_mesg\<lparr>native := Some 4\<rparr>)
   \<and> \<not> dirty (snd (snd (H5O_LOAD_NATIVE ex_extern ex_class 0 0 0 ex_oh ex_mesg)))"
  by (simp add: H5O_LOAD_NATIVE_def ex_extern_def ex_class_def ex_mesg_def ex_oh_def
      H5O_DECODEIO_DIRTY_def)

text \<open>
  C8. When the file's intent lacks \<open>H5F_ACC_RDWR\<close>, \<open>H5O_LOAD_NATIVE\<close> leaves the dirty
  flag of the message as it was (a clean message stays clean) and does not count a
  message dirtied by decoding, whatever the decode callback reports and however the
  macro ends.
\<close>

theorem H5O_LOAD_NATIVE_rdonly_keeps_dirty:
  assumes "H5F_get_intent E F AND H5F_ACC_RDWR E = 0"
  shows "dirty (snd (snd (H5O_LOAD_NATIVE E g F DXPL IOF OH MSG))) = dirty MSG
       \<and> ndecode_dirtied (fst (snd (H5O_LOAD_NATIVE E g F DXPL IOF OH MSG))) = ndecode_dirtied OH"
  using assms
  by (auto simp add: H5O_LOAD_NATIVE_def Let_def split: option.splits prod.splits)

theorem H5O_LOAD_NATIVE_rdonly_keeps_dirty_witness:
  "H5F_get_intent ex_extern 0 AND H5F_ACC_RDWR ex_extern = 0
   \<and> snd (decode (ex_class (type ex_mesg)) 0 0 ex_oh (ucast (H5O_mesg_t.flags ex_mesg)) 0
            (raw ex_mesg)) AND H5O_DECODEIO_DIRTY = 2
   \<and> dirty ex_mesg = False
   \<and> dirty (snd (snd (H5O_LOAD_NATIVE ex_extern ex_class 0 0 0 ex_oh ex_mesg))) = False
   \<and> native (snd (snd (H5O_LOAD_NATIVE ex_extern ex_class 0 0 0 ex_oh ex_mesg))) = Some 4"
  using H5O_LOAD_NATIVE_rdonly_keeps_dirty [of ex_extern 0 ex_class 0 0 ex_oh ex_mesg]
  by (simp add: H5O_LOAD_NATIVE_def ex_extern_def ex_class_def ex_mesg_def ex_oh_def
      H5O_DECODEIO_DIRTY_def)

section \<open>Plugin loading state\<close>

text \<open>
  C5, as amended. For every prior value of the loading state and every argument, a
  successful call of \<open>H5PLset_loading_state\<close> made while \<open>HDF5_PLUGIN_PRELOAD\<close> is unset
  or differs from \<open>::\<close> leaves the loading state equal to the argument; so it differs
  from the bitwise OR of the argument with the prior value whenever that OR differs
  from the argument (the prior value has a bit the argument lacks).
\<close>

theorem H5PLset_loading_state_overwrites:
  assumes "0 \<le> fst (H5PLset_loading_state A plugin_type g)"
    and "HDgetenv A ''HDF5_PLUGIN_PRELOAD'' \<noteq> Some ''::''"
  shows "snd (H5PLset_loading_state A plugin_type g) = plugin_type
       \<and> (plugin_type OR g \<noteq> plugin_type
            \<longrightarrow> snd (H5PLset_loading_state A plugin_type g) \<noteq> plugin_type OR g)"
  using assms
  by (auto simp add: H5PLset_loading_state_def H5PL_NO_PLUGIN_def FAIL_def SUCCEED_def Let_def
      split: option.splits if_splits)

theorem H5PLset_loading_state_overwrites_witness:
  "0 \<le> fst (H5PLset_loading_state (ex_api None) 1 2)
   \<and> HDgetenv (ex_api None) ''HDF5_PLUGIN_PRELOAD'' \<noteq> Some ''::''
   \<and> (1 :: unsigned) OR 2 \<noteq> 1
   \<and> H5PLset_loading_state (ex_api None) 1 2 = (SUCCEED, 1)
   \<and> snd (H5PLset_loading_state (ex_api None) 1 2) \<noteq> 1 OR 2"
  using H5PLset_loading_state_overwrites [of "ex_api None" 1 2]
  by (simp add: H5PLset_loading_state_def ex_api_def SUCCEED_def)

text \<open>
  The claim as written (every successful call leaves the argument) fails when
  \<open>HDF5_PLUGIN_PRELOAD\<close> is \<open>::\<close>: the call with argument 1 succeeds and leaves 0.
\<close>

theorem H5PLset_loading_state_counterexample:
  "H5PLset_loading_state (ex_api (Some ''::'')) 1 1 = (SUCCEED, 0)
   \<and> snd (H5PLset_loading_state (ex_api (Some ''::'')) 1 1) \<noteq> 1"
  by (simp add: H5PLset_loading_state_def ex_api_def SUCCEED_def H5PL_NO_PLUGIN_def)

text \<open>
  C9. When \<open>HDF5_PLUGIN_PRELOAD\<close> is set to \<open>::\<close>, a call of \<open>H5PLset_loading_state\<close>
  that enters the library returns \<open>SUCCEED\<close> and leaves the loading state 0, whatever
  the argument and the prior value; so does every call that returns a non-negative
  status.
\<close>

theorem H5PLset_loading_state_no_plugin:
  assumes "HDgetenv A ''HDF5_PLUGIN_PRELOAD'' = Some ''::''"
  shows "(FUNC_ENTER_API_ok A \<longrightarrow> H5PLset_loading_state A plugin_type g = (SUCCEED, 0))
       \<and> (0 \<le> fst (H5PLset_loading_state A plugin_type g)
            \<longrightarrow> H5PLset_loading_state A plugin_type g = (SUCCEED, 0))"
  using assms
  by (auto simp add: H5PLset_loading_state_def H5PL_NO_PLUGIN_def FAIL_def SUCCEED_def Let_def)

theorem H5PLset_loading_state_no_plugin_witness:
  "HDgetenv (ex_api (Some ''::'')) ''HDF5_PLUGIN_PRELOAD'' = Some ''::''
   \<and> FUNC_ENTER_API_ok (ex_api (Some ''::''))
   \<and> 0 \<le> fst (H5PLset_loading_state (ex_api (Some ''::'')) 65535 7)
   \<and> H5PLset_loading_state (ex_api (Some ''::'')) 65535 7 = (SUCCEED, 0)"
  using H5PLset_loading_state_no_plugin [of "ex_api (Some ''::'')" 65535 7]
  by (simp add: H5PLset_loading_state_def H5PL_NO_PLUGIN_def ex_api_def SUCCEED_def)

section \<open>Plugin path table\<close>

text \<open>
  C10. When the path table is empty or the index is at least the number of stored
  paths, \<open>H5PLreplace\<close>, \<open>H5PLremove\<close> and \<open>H5PLget\<close> each return a negative value
  and leave the path table unchanged (\<open>H5PLget\<close> also leaves the caller's buffer
  unchanged), whatever the search path, the buffer and its size.
\<close>

theorem H5PL_index_out_of_range:
  assumes "H5PL__get_num_paths P t = 0 \<or> H5PL__get_num_paths P t \<le> index"
  shows "fst (H5PLreplace A P search_path index t) < 0
       \<and> snd (H5PLreplace A P search_path index t) = t
       \<and> fst (H5PLremove A P index t) < 0
       \<and> snd (H5PLremove A P index t) = t
       \<and> (\<exists>r < 0. H5PLget A P index path_name size_a t = Returned r path_name t)"
proof -
  have "H5PLreplace A P search_path index t = (FAIL, t)"
    using assms by (auto simp add: H5PLreplace_def Let_def split: option.splits)
  moreover have "H5PLremove A P index t = (FAIL, t)"
    using assms by (auto simp add: H5PLremove_def Let_def)
  moreover have "H5PLget A P index path_name size_a t = Returned FAIL path_name t"
    using assms by (auto simp add: H5PLget_def Let_def)
  ultimately show ?thesis
    by (simp add: FAIL_def)
qed

theorem H5PL_index_out_of_range_witness:
  "H5PL__get_num_paths list_path [''/a'', ''/b''] \<le> 2
   \<and> H5PLreplace (ex_api None) list_path (Some ''/usr/lib'') 2 [''/a'', ''/b''] = (FAIL, [''/a'', ''/b''])
   \<and> H5PLremove (ex_api None) list_path 2 [''/a'', ''/b''] = (FAIL, [''/a'', ''/b''])
   \<and> H5PLget (ex_api None) list_path 2 (Some ''xxxx'') 4 [''/a'', ''/b'']
       = Returned FAIL (Some ''xxxx'') [''/a'', ''/b'']
   \<and> H5PL__get_num_paths list_path [] = 0
   \<and> H5PLreplace (ex_api None) list_path (Some ''/usr/lib'') 0 [] = (FAIL, [])
   \<and> H5PLremove (ex_api None) list_path 0 [] = (FAIL, [])
   \<and> H5PLget (ex_api None) list_path 0 None 0 [] = Returned FAIL None []
   \<and> H5PLreplace (ex_api None) list_path (Some ''/usr/lib'') 1 [''/a'', ''/b'']
       = (SUCCEED, [''/a'', ''/usr/lib''])
   \<and> H5PLremove (ex_api None) list_path 0 [''/a'', ''/b''] = (SUCCEED, [''/b''])
   \<and> H5PLget (ex_api None) list_path 1 (Some ''xxxx'') 4 [''/a'', ''/b'']
       = Returned 2 (Some (''/b'' @ [CHR 0x00] @ ''x'')) [''/a'', ''/b'']"
  using H5PL_index_out_of_range
          [of list_path "[''/a'', ''/b'']" 2 "ex_api None" "Some ''/usr/lib''" "Some ''xxxx''" 4]
        H5PL_index_out_of_range
          [of list_path "[]" 0 "ex_api None" "Some ''/usr/lib''" None 0]
  by (simp add: H5PLreplace_def H5PLremove_def H5PLget_def HDstrncpy_def ex_api_def
      list_path_def SUCCEED_def FAIL_def word_le_nat_alt)


end
